theory Spec2Isabelle
  imports
    Main
    "HOL-Library.Sublist"
    "HOL-Library.Char_ord"
    "HOL-Library.List_Lexorder"
    "HOL-Library.Finite_Map"
begin

section \<open>Strings and the GCC wrapper's command test\<close>

text \<open>
  \<^verbatim>\<open>std::string::find(pat)\<close> returns the position of the first occurrence of \<open>pat\<close>, or
  \<^verbatim>\<open>npos\<close> (here \<open>None\<close>) when there is none.
\<close>

fun string_find :: "string \<Rightarrow> string \<Rightarrow> nat option" where
  "string_find [] pat = (if pat = [] then Some 0 else None)"
| "string_find (c # s) pat =
     (if prefix pat (c # s) then Some 0 else map_option Suc (string_find s pat))"

text \<open>
  \<^verbatim>\<open>gcc_wrapper_t::can_handle_command\<close> (gcc_wrapper.cpp, lines 62-66). The C++ \<^verbatim>\<open>&&\<close> does not
  read \<^verbatim>\<open>args[0]\<close> of an empty vector; the case distinction keeps that.
\<close>

definition can_handle_command :: "string list \<Rightarrow> bool" where
  "can_handle_command args =
     (case args of
        [] \<Rightarrow> False
      | a0 # _ \<Rightarrow> string_find a0 ''gcc'' \<noteq> None \<or> string_find a0 ''g++'' \<noteq> None)"

section \<open>Logging\<close>

text \<open>
  The levels of \<^verbatim>\<open>debug::log\<close> (debug_utils.cpp). A log statement is recorded as an event with
  its level and text; whether it is printed depends on the configured threshold only.
\<close>

datatype log_level_t = DEBUG | INFO | WARNING | ERROR | FATAL | NONE

section \<open>Capabilities\<close>

record config =
  direct_mode :: bool
  hard_links :: bool
  compress :: bool
  read_only :: bool
  terminate_on_miss :: bool
  hash_extra_files :: "string list"

text \<open>
  \<^verbatim>\<open>program_wrapper_t::capabilities_t\<close>: three flags, false by default. The constructor
  (program_wrapper.cpp, lines 41-57) walks over the capability strings; the loop body is
  \<open>capability_step\<close>, which also returns the text of the error it logs for a string that no
  branch accepts.
\<close>

record capabilities_t =
  m_create_target_dirs :: bool
  m_direct_mode :: bool
  m_hard_links :: bool

definition no_capabilities :: capabilities_t where
  "no_capabilities =
     \<lparr>m_create_target_dirs = False, m_direct_mode = False, m_hard_links = False\<rparr>"

definition capability_step ::
  "config \<Rightarrow> string \<Rightarrow> capabilities_t \<times> string list \<Rightarrow> capabilities_t \<times> string list" where
  "capability_step cfg str acc =
     (case acc of (caps, errs) \<Rightarrow>
        if str = ''create_target_dirs'' then (caps\<lparr>m_create_target_dirs := True\<rparr>, errs)
        else if \<not> m_direct_mode caps \<and> str = ''direct_mode''
          then (caps\<lparr>m_direct_mode := direct_mode cfg\<rparr>, errs)
        else if str = ''force_direct_mode'' then (caps\<lparr>m_direct_mode := True\<rparr>, errs)
        else if str = ''hard_links'' then (caps\<lparr>m_hard_links := hard_links cfg\<rparr>, errs)
        else (caps, errs @ [''Invalid capability string: '' @ str]))"

fun capabilities_loop ::
  "config \<Rightarrow> string list \<Rightarrow> capabilities_t \<times> string list \<Rightarrow> capabilities_t \<times> string list" where
  "capabilities_loop cfg [] acc = acc"
| "capabilities_loop cfg (str # strs) acc = capabilities_loop cfg strs (capability_step cfg str acc)"

definition capabilities_ctor :: "config \<Rightarrow> string list \<Rightarrow> capabilities_t \<times> string list" where
  "capabilities_ctor cfg cap_strings = capabilities_loop cfg cap_strings (no_capabilities, [])"

definition capabilities :: "config \<Rightarrow> string list \<Rightarrow> capabilities_t" where
  "capabilities cfg cap_strings = fst (capabilities_ctor cfg cap_strings)"


section \<open>Exceptions\<close>

text \<open>
  The handlers of program_wrapper.cpp tell three kinds of exception apart:
  \<^verbatim>\<open>std::runtime_error\<close> (and classes derived from it), any other \<^verbatim>\<open>std::exception\<close>, and
  objects that are not a \<^verbatim>\<open>std::exception\<close> at all (caught by \<^verbatim>\<open>catch (...)\<close> only).
  The string is \<^verbatim>\<open>what()\<close>.
\<close>

datatype exn = RuntimeError string | StdException string | UnknownException

fun what :: "exn \<Rightarrow> string" where
  "what (RuntimeError msg) = msg"
| "what (StdException msg) = msg"
| "what UnknownException = []"

section \<open>The hasher\<close>

text \<open>
  \<^verbatim>\<open>hasher_t\<close> is used by program_wrapper.cpp through \<^verbatim>\<open>update\<close> (of a string, of a string
  list, of a string map), \<^verbatim>\<open>update_from_file\<close>, \<^verbatim>\<open>inject_separator\<close> and \<^verbatim>\<open>final\<close>. Its state
  is kept as the sequence of things absorbed so far, one item per call, in call order.
\<close>

datatype absorb =
    Bytes string
  | FileData string
  | StringList "string list"
  | StringMap "(string \<times> string) list"
  | Separator

type_synonym hasher_t = "absorb list"

definition update :: "string \<Rightarrow> hasher_t \<Rightarrow> hasher_t" where
  "update text h = h @ [Bytes text]"

definition update_list :: "string list \<Rightarrow> hasher_t \<Rightarrow> hasher_t" where
  "update_list strs h = h @ [StringList strs]"

text \<open>
  A \<^verbatim>\<open>std::map<std::string, T>\<close> is a finite map; iterating it visits the keys in increasing
  order (strings compare lexicographically, characters as unsigned bytes), which is
  \<open>sorted_list_of_fmap\<close>.
\<close>

definition update_map :: "(string, string) fmap \<Rightarrow> hasher_t \<Rightarrow> hasher_t" where
  "update_map m h = h @ [StringMap (sorted_list_of_fmap m)]"

definition inject_separator :: "hasher_t \<Rightarrow> hasher_t" where
  "inject_separator h = h @ [Separator]"

text \<open>
  Modelled from the spec: the framing and the digest of \<^verbatim>\<open>hasher_t\<close> (base/hasher.hpp and its
  implementation are missing). The spec's hasher absorbs raw bytes, file contents, an ordered
  sequence of strings (each element followed by a separator), a string map (as the sequence
  of \<open>key=value\<close> strings in key order) and an explicit separator token that cannot occur
  in any input; the digest is a function \<open>digest_of\<close> of the framed stream, supplied by the
  environment.
\<close>

datatype token = Byte char | Sep

fun frame :: "absorb \<Rightarrow> token list" where
  "frame (Bytes s) = map Byte s"
| "frame (FileData s) = map Byte s"
| "frame (StringList strs) = concat (map (\<lambda>s. map Byte s @ [Sep]) strs)"
| "frame (StringMap kvs) =
     concat (map (\<lambda>s. map Byte s @ [Sep]) (map (\<lambda>kv. fst kv @ ''='' @ snd kv) kvs))"
| "frame Separator = [Sep]"

definition framed_stream :: "hasher_t \<Rightarrow> token list" where
  "framed_stream h = concat (map frame h)"

text \<open>
  Modelled from the spec: an ideal digest, one that tells any two framed streams apart
  (the spec's hasher invariant) and is never the empty string. It stands in for the hash
  primitive where a concrete one is needed.
\<close>

fun token_code :: "token \<Rightarrow> string" where
  "token_code (Byte c) = [CHR ''b'', c]"
| "token_code Sep = ''ss''"

definition ideal_digest :: "token list \<Rightarrow> string" where
  "ideal_digest ts = CHR ''#'' # concat (map token_code ts)"

section \<open>Data of the pipeline\<close>

record expected_file_t =
  path :: string
  required :: bool

record run_result_t =
  std_out :: string
  std_err :: string
  return_code :: int

datatype comp_mode_t = COMP_NONE | COMP_ALL

record cache_entry_t =
  entry_file_ids :: "string list"
  entry_compression_mode :: comp_mode_t
  entry_std_out :: string
  entry_std_err :: string
  entry_return_code :: int

record file_info_t =
  info_path :: string
  info_size :: int
  info_modify_time :: int

text \<open>
  The virtual hooks of \<^verbatim>\<open>program_wrapper_t\<close>, the file system, the program id store and
  the cache are outside program_wrapper.cpp. One invocation is described by what each of them
  answers: a value, or the exception it throws. \<open>get_program_id\<close> can be called twice in one
  invocation, so its answer depends on the number of earlier calls. The cache lookups
  receive the current value of the \<^verbatim>\<open>return_code\<close> reference and answer with the hit flag and
  the new value. Files are read (\<open>read_file\<close>) before the tool runs; \<open>file_exists\<close> is asked
  after it. The timing marks \<^verbatim>\<open>PERF_START\<close> and \<^verbatim>\<open>PERF_STOP\<close> are left out, and writing a log
  line does not throw (\<^verbatim>\<open>log::~log\<close> in debug_utils.cpp catches the error of its file).
\<close>

datatype hook =
    ResolveArgs | GetCapabilities | GetBuildFiles | GetProgramId | GetRelevantArguments
  | GetRelevantEnvVars | GetInputFiles | PreprocessSource | GetImplicitInputFiles | RunForMiss

type_synonym expected_files_t = "(string, expected_file_t) fmap"

record world =
  cfg :: config
  digest_of :: "token list \<Rightarrow> string"
  m_exe_real_path :: string
  resolve_args :: "exn + string list"
  get_capabilities :: "exn + string list"
  get_build_files :: "exn + expected_files_t"
  get_program_id :: "nat \<Rightarrow> exn + string"
  get_relevant_arguments :: "exn + string list"
  get_relevant_env_vars :: "exn + (string, string) fmap"
  get_input_files :: "exn + string list"
  preprocess_source :: "exn + string"
  get_implicit_input_files :: "exn + string list"
  run_for_miss :: "exn + run_result_t"
  read_file :: "string \<Rightarrow> exn + string"
  resolve_path :: "string \<Rightarrow> exn + string"
  file_exists :: "string \<Rightarrow> bool"
  get_file_info :: "string \<Rightarrow> exn + file_info_t"
  get_item :: "string \<Rightarrow> exn + string option"
  store_item :: "string \<Rightarrow> string \<Rightarrow> int \<Rightarrow> exn option"
  lookup_direct :: "string \<Rightarrow> expected_files_t \<Rightarrow> bool \<Rightarrow> bool \<Rightarrow> int \<Rightarrow> exn + bool \<times> int"
  lookup :: "string \<Rightarrow> expected_files_t \<Rightarrow> bool \<Rightarrow> bool \<Rightarrow> int \<Rightarrow> exn + bool \<times> int"
  add :: "string \<Rightarrow> cache_entry_t \<Rightarrow> expected_files_t \<Rightarrow> bool \<Rightarrow> exn option"
  add_direct :: "string \<Rightarrow> string \<Rightarrow> string list \<Rightarrow> exn option"

definition final :: "world \<Rightarrow> hasher_t \<Rightarrow> string" where
  "final w h = digest_of w (framed_stream h)"

section \<open>Running code: state, exceptions, events\<close>

text \<open>
  What an invocation does to the outside is recorded as a list of events: the hooks it
  calls, the log lines it writes, the store and cache operations it performs.
\<close>

datatype event =
    Call hook
  | Log log_level_t string
  | StoreItem string string int
  | LookupDirect string
  | Lookup string
  | Add string cache_entry_t
  | AddDirect string string "string list"

text \<open>
  The variables of \<^verbatim>\<open>handle_command\<close> that are assigned in one place and read in another:
  the \<^verbatim>\<open>return_code\<close> reference and the local \<^verbatim>\<open>direct_hash\<close>. A piece of code maps a state
  to its outcome (a value, or the exception thrown) and the state it leaves behind.
\<close>

record pstate =
  out_return_code :: int
  direct_hash :: string
  trace :: "event list"

type_synonym 'a prog = "pstate \<Rightarrow> (exn + 'a) \<times> pstate"

definition ret :: "'a \<Rightarrow> 'a prog" where
  "ret a s = (Inr a, s)"

definition raise :: "exn \<Rightarrow> 'a prog" where
  "raise e s = (Inl e, s)"

definition bind :: "'a prog \<Rightarrow> ('a \<Rightarrow> 'b prog) \<Rightarrow> 'b prog" where
  "bind m f s = (case m s of (Inl e, s') \<Rightarrow> (Inl e, s') | (Inr a, s') \<Rightarrow> f a s')"

definition try_catch :: "'a prog \<Rightarrow> (exn \<Rightarrow> 'a prog) \<Rightarrow> 'a prog" where
  "try_catch m handler s = (case m s of (Inl e, s') \<Rightarrow> handler e s' | (Inr a, s') \<Rightarrow> (Inr a, s'))"

definition outcome :: "exn + 'a \<Rightarrow> 'a prog" where
  "outcome r s = (r, s)"

definition emit :: "event \<Rightarrow> unit prog" where
  "emit ev s = (Inr (), s\<lparr>trace := trace s @ [ev]\<rparr>)"

definition debug_log :: "log_level_t \<Rightarrow> string \<Rightarrow> unit prog" where
  "debug_log level msg = emit (Log level msg)"

definition call :: "hook \<Rightarrow> exn + 'a \<Rightarrow> 'a prog" where
  "call h r = bind (emit (Call h)) (\<lambda>_. outcome r)"

definition get_direct_hash :: "string prog" where
  "get_direct_hash s = (Inr (direct_hash s), s)"

definition set_direct_hash :: "string \<Rightarrow> unit prog" where
  "set_direct_hash v s = (Inr (), s\<lparr>direct_hash := v\<rparr>)"

definition set_return_code :: "int \<Rightarrow> unit prog" where
  "set_return_code v s = (Inr (), s\<lparr>out_return_code := v\<rparr>)"

definition with_return_code :: "(int \<Rightarrow> exn + bool \<times> int) \<Rightarrow> bool prog" where
  "with_return_code f s =
     (case f (out_return_code s) of
        Inl e \<Rightarrow> (Inl e, s)
      | Inr (found, rc) \<Rightarrow> (Inr found, s\<lparr>out_return_code := rc\<rparr>))"

definition void_outcome :: "exn option \<Rightarrow> unit prog" where
  "void_outcome r = outcome (case r of None \<Rightarrow> Inr () | Some e \<Rightarrow> Inl e)"

definition update_from_file :: "world \<Rightarrow> string \<Rightarrow> hasher_t \<Rightarrow> hasher_t prog" where
  "update_from_file w file h = bind (outcome (read_file w file)) (\<lambda>data. ret (h @ [FileData data]))"

section \<open>The program id cache\<close>

text \<open>Decimal output of an integer, as \<^verbatim>\<open>operator<<\<close> writes it.\<close>

definition digit_char :: "nat \<Rightarrow> char" where
  "digit_char d = ''0123456789'' ! d"

fun show_nat :: "nat \<Rightarrow> string" where
  "show_nat n = (if n < 10 then [digit_char n] else show_nat (n div 10) @ [digit_char (n mod 10)])"

declare show_nat.simps [simp del]

definition show_int :: "int \<Rightarrow> string" where
  "show_int i = (if i < 0 then CHR ''-'' # show_nat (nat (- i)) else show_nat (nat i))"

definition PROGRAM_ID_CACHE_LIFE_TIME :: int where
  "PROGRAM_ID_CACHE_LIFE_TIME = 300"

text \<open>The key of \<^verbatim>\<open>get_program_id_cached\<close> (program_wrapper.cpp, lines 305-310).\<close>

definition program_id_key :: "world \<Rightarrow> file_info_t \<Rightarrow> string" where
  "program_id_key w file_info =
     final w (update
       (info_path file_info @ '':'' @ show_int (info_size file_info) @ '':'' @
        show_int (info_modify_time file_info)) [])"

text \<open>
  A call of the hook \<^verbatim>\<open>get_program_id\<close>: the answer is the one for the number of calls made
  before, which the trace tells.
\<close>

definition program_id_calls :: "event list \<Rightarrow> nat" where
  "program_id_calls evs = length (filter (\<lambda>ev. ev = Call GetProgramId) evs)"

definition call_get_program_id :: "world \<Rightarrow> string prog" where
  "call_get_program_id w s =
     call GetProgramId (get_program_id w (program_id_calls (trace s))) s"

text \<open>
  \<^verbatim>\<open>m_args[0]\<close>, written to the log by \<^verbatim>\<open>get_program_id_cached\<close>. C++ leaves the read
  undefined for an empty vector, and so does this definition.
\<close>

definition first_arg :: "string list \<Rightarrow> string" where
  "first_arg m_args = hd m_args"

text \<open>
  \<^verbatim>\<open>program_wrapper_t::get_program_id_cached\<close> (lines 302-331). The \<^verbatim>\<open>try\<close> block returns the
  program id; when its handler has caught a \<^verbatim>\<open>std::exception\<close> the block yields \<open>None\<close> and
  the fallback call after the handler runs.
\<close>

definition get_program_id_cached :: "world \<Rightarrow> string list \<Rightarrow> string prog" where
  "get_program_id_cached w m_args =
     bind
       (try_catch
          (bind (outcome (get_file_info w (m_exe_real_path w))) (\<lambda>file_info.
           bind (outcome (get_item w (program_id_key w file_info))) (\<lambda>item.
             case item of
               Some v \<Rightarrow>
                 bind (debug_log DEBUG (''Found cached program ID for '' @ first_arg m_args)) (\<lambda>_.
                 ret (Some v))
             | None \<Rightarrow>
                 bind (debug_log DEBUG (''Program ID cache miss for '' @ first_arg m_args)) (\<lambda>_.
                 bind (call_get_program_id w) (\<lambda>program_id.
                 bind (emit (StoreItem (program_id_key w file_info) program_id
                         PROGRAM_ID_CACHE_LIFE_TIME)) (\<lambda>_.
                 bind (void_outcome (store_item w (program_id_key w file_info) program_id
                         PROGRAM_ID_CACHE_LIFE_TIME)) (\<lambda>_.
                 ret (Some program_id))))))))
          (\<lambda>e. case e of
                  UnknownException \<Rightarrow> raise e
                | _ \<Rightarrow>
                    bind (debug_log ERROR (''Unable to get cached program ID: '' @ what e)) (\<lambda>_.
                    ret None)))
       (\<lambda>r. case r of Some program_id \<Rightarrow> ret program_id | None \<Rightarrow> call_get_program_id w)"

section \<open>The pipeline\<close>

text \<open>The base hash (lines 84-102).\<close>

fun hash_extra_files_loop :: "world \<Rightarrow> string list \<Rightarrow> hasher_t \<Rightarrow> hasher_t prog" where
  "hash_extra_files_loop w [] h = ret h"
| "hash_extra_files_loop w (extra_file # rest) h =
     bind (update_from_file w extra_file h) (\<lambda>h'. hash_extra_files_loop w rest h')"

definition base_hash :: "world \<Rightarrow> string list \<Rightarrow> hasher_t prog" where
  "base_hash w m_args =
     bind (hash_extra_files_loop w (hash_extra_files (cfg w)) []) (\<lambda>h1.
     bind (get_program_id_cached w m_args) (\<lambda>program_id.
     bind (call GetRelevantArguments (get_relevant_arguments w)) (\<lambda>relevant_arguments.
     bind (call GetRelevantEnvVars (get_relevant_env_vars w)) (\<lambda>relevant_env_vars.
     ret (update_map relevant_env_vars
            (update_list relevant_arguments (update program_id h1)))))))"

text \<open>The direct mode hash (lines 115-137).\<close>

fun hash_input_files_loop :: "world \<Rightarrow> string list \<Rightarrow> hasher_t \<Rightarrow> hasher_t prog" where
  "hash_input_files_loop w [] h = ret h"
| "hash_input_files_loop w (file # rest) h =
     bind (outcome (resolve_path w file)) (\<lambda>resolved.
     bind (update_from_file w file (inject_separator (update resolved h))) (\<lambda>h'.
     hash_input_files_loop w rest h'))"

definition direct_mode_hash :: "world \<Rightarrow> string list \<Rightarrow> string list \<Rightarrow> hasher_t \<Rightarrow> string prog" where
  "direct_mode_hash w m_args input_files hasher =
     bind (hash_input_files_loop w input_files (update_list m_args (inject_separator hasher)))
       (\<lambda>dm_hasher. ret (final w dm_hasher))"

text \<open>
  The direct mode attempt (lines 108-152): the body of the inner \<^verbatim>\<open>try\<close> block, its handler,
  and the whole statement. The result is \<open>True\<close> when \<^verbatim>\<open>handle_command\<close> returns true from
  inside the block. The handler catches \<^verbatim>\<open>std::runtime_error\<close> only.
\<close>

definition direct_mode_block ::
  "world \<Rightarrow> string list \<Rightarrow> capabilities_t \<Rightarrow> expected_files_t \<Rightarrow> hasher_t \<Rightarrow> bool prog" where
  "direct_mode_block w m_args caps expected_files hasher =
     bind (call GetInputFiles (get_input_files w)) (\<lambda>input_files.
     if length input_files > 0 then
       bind (direct_mode_hash w m_args input_files hasher) (\<lambda>digest.
       bind (set_direct_hash digest) (\<lambda>_.
       bind (emit (LookupDirect digest)) (\<lambda>_.
       with_return_code
         (lookup_direct w digest expected_files (m_hard_links caps)
            (m_create_target_dirs caps)))))
     else ret False)"

definition direct_mode_handler :: "exn \<Rightarrow> bool prog" where
  "direct_mode_handler e =
     (case e of
        RuntimeError msg \<Rightarrow>
          bind (debug_log ERROR (''Direct mode lookup failed: '' @ msg)) (\<lambda>_. ret False)
      | _ \<Rightarrow> raise e)"

definition direct_mode_attempt ::
  "world \<Rightarrow> string list \<Rightarrow> capabilities_t \<Rightarrow> expected_files_t \<Rightarrow> hasher_t \<Rightarrow> bool prog" where
  "direct_mode_attempt w m_args caps expected_files hasher =
     (if m_direct_mode caps then
        try_catch (direct_mode_block w m_args caps expected_files hasher) direct_mode_handler
      else ret False)"

text \<open>Adding a direct mode entry, when there is a direct mode hash (lines 168-171, 219-222).\<close>

definition add_direct_entry :: "world \<Rightarrow> string \<Rightarrow> unit prog" where
  "add_direct_entry w hash =
     bind get_direct_hash (\<lambda>dh.
     if dh \<noteq> [] then
       bind (call GetImplicitInputFiles (get_implicit_input_files w)) (\<lambda>implicit.
       bind (emit (AddDirect dh hash implicit)) (\<lambda>_.
       void_outcome (add_direct w dh hash implicit)))
     else ret ())"

fun join :: "string \<Rightarrow> string list \<Rightarrow> string" where
  "join sep [] = []"
| "join sep [s] = s"
| "join sep (s # t # rest) = s @ sep @ join sep (t # rest)"

text \<open>The list of file ids (lines 196-203): the ids of the table in key order, optional files
  that do not exist left out.\<close>

definition collect_file_ids :: "world \<Rightarrow> expected_files_t \<Rightarrow> string list" where
  "collect_file_ids w expected_files =
     map fst (filter (\<lambda>file. required (snd file) \<or> file_exists w (path (snd file)))
                (sorted_list_of_fmap expected_files))"

text \<open>The new cache entry (lines 211-216).\<close>

definition make_entry :: "world \<Rightarrow> expected_files_t \<Rightarrow> run_result_t \<Rightarrow> cache_entry_t" where
  "make_entry w expected_files result =
     \<lparr>entry_file_ids = collect_file_ids w expected_files,
      entry_compression_mode = (if compress (cfg w) then COMP_ALL else COMP_NONE),
      entry_std_out = std_out result,
      entry_std_err = std_err result,
      entry_return_code = return_code result\<rparr>"

text \<open>After a miss (lines 179-229).\<close>

definition miss_handling ::
  "world \<Rightarrow> capabilities_t \<Rightarrow> expected_files_t \<Rightarrow> string \<Rightarrow> bool prog" where
  "miss_handling w caps expected_files hash =
     (if terminate_on_miss (cfg w) then
        bind (debug_log INFO (''Terminating! Expected files: '' @
                join '', '' (map (\<lambda>file. path (snd file)) (sorted_list_of_fmap expected_files)))) (\<lambda>_.
        bind (set_return_code 1) (\<lambda>_.
        ret True))
      else
        bind (call RunForMiss (run_for_miss w)) (\<lambda>result.
        bind (if return_code result = 0 \<and> \<not> read_only (cfg w) then
                bind (emit (Add hash (make_entry w expected_files result))) (\<lambda>_.
                bind (void_outcome (add w hash (make_entry w expected_files result)
                        expected_files (m_hard_links caps))) (\<lambda>_.
                add_direct_entry w hash))
              else ret ()) (\<lambda>_.
        bind (set_return_code (return_code result)) (\<lambda>_.
        ret True))))"

text \<open>Preprocessor mode and the primary lookup (lines 154-177), then the miss handling.\<close>

definition preprocessor_mode ::
  "world \<Rightarrow> capabilities_t \<Rightarrow> expected_files_t \<Rightarrow> hasher_t \<Rightarrow> bool prog" where
  "preprocessor_mode w caps expected_files hasher =
     bind (call PreprocessSource (preprocess_source w)) (\<lambda>preprocessed.
     bind (emit (Lookup (final w (update preprocessed hasher)))) (\<lambda>_.
     bind (with_return_code
             (lookup w (final w (update preprocessed hasher)) expected_files (m_hard_links caps)
                (m_create_target_dirs caps))) (\<lambda>found.
     if found then
       bind (add_direct_entry w (final w (update preprocessed hasher))) (\<lambda>_.
       bind (debug_log INFO (''Cache hit ('' @ final w (update preprocessed hasher) @ '')'')) (\<lambda>_.
       ret True))
     else
       bind (debug_log INFO (''Cache miss ('' @ final w (update preprocessed hasher) @ '')'')) (\<lambda>_.
       miss_handling w caps expected_files (final w (update preprocessed hasher))))))"

text \<open>Constructing the active capabilities, with the errors the constructor logs (line 74).\<close>

fun log_all :: "log_level_t \<Rightarrow> string list \<Rightarrow> unit prog" where
  "log_all level [] = ret ()"
| "log_all level (msg # msgs) = bind (debug_log level msg) (\<lambda>_. log_all level msgs)"

definition read_capabilities :: "world \<Rightarrow> capabilities_t prog" where
  "read_capabilities w =
     bind (call GetCapabilities (get_capabilities w)) (\<lambda>cap_strings.
     bind (log_all ERROR (snd (capabilities_ctor (cfg w) cap_strings))) (\<lambda>_.
     ret (capabilities (cfg w) cap_strings)))"

text \<open>
  The body of the outer \<^verbatim>\<open>try\<close> block (lines 67-229): first the part up to the base hash
  (lines 67-102), which yields the resolved arguments, the active capabilities, the table of
  expected files and the base hasher; then the two lookups and the miss handling.
\<close>

definition hashing_front ::
  "world \<Rightarrow> (string list \<times> capabilities_t \<times> expected_files_t \<times> hasher_t) prog" where
  "hashing_front w =
     bind (call ResolveArgs (resolve_args w)) (\<lambda>m_args.
     bind (read_capabilities w) (\<lambda>caps.
     bind (call GetBuildFiles (get_build_files w)) (\<lambda>expected_files.
     bind (base_hash w m_args) (\<lambda>hasher.
     ret (m_args, caps, expected_files, hasher)))))"

definition pipeline_body :: "world \<Rightarrow> bool prog" where
  "pipeline_body w =
     bind (hashing_front w) (\<lambda>front.
       case front of (m_args, caps, expected_files, hasher) \<Rightarrow>
         bind (direct_mode_attempt w m_args caps expected_files hasher) (\<lambda>returned.
         if returned then ret True
         else preprocessor_mode w caps expected_files hasher))"

text \<open>The outer handlers (lines 230-235).\<close>

definition outer_handler :: "exn \<Rightarrow> bool prog" where
  "outer_handler e =
     (case e of
        UnknownException \<Rightarrow> bind (debug_log ERROR ''UNEXPECTED EXCEPTION'') (\<lambda>_. ret False)
      | _ \<Rightarrow> bind (debug_log DEBUG (''Exception: '' @ what e)) (\<lambda>_. ret False))"

text \<open>
  \<^verbatim>\<open>program_wrapper_t::handle_command\<close> (lines 63-238): the value returned and the state left
  behind, whose \<open>out_return_code\<close> is the \<^verbatim>\<open>return_code\<close> of the caller. Both outer handlers
  end normally, so the second case below never applies (lemma \<open>handle_command_returns\<close>).
\<close>

definition initial_state :: pstate where
  "initial_state = \<lparr>out_return_code = 1, direct_hash = [], trace = []\<rparr>"

definition handle_command :: "world \<Rightarrow> bool \<times> pstate" where
  "handle_command w =
     (case try_catch (pipeline_body w) outer_handler initial_state of
        (Inr b, s) \<Rightarrow> (b, s)
      | (Inl e, s) \<Rightarrow> (False, s))"

section \<open>The program id store\<close>






section \<open>The cache store\<close>



section \<open>Properties of traces\<close>

text \<open>
  \<open>appends P m\<close>: whatever \<open>m\<close> does, it only adds events to the end of the trace, and
  every event it adds satisfies \<open>P\<close>.
\<close>

definition appends :: "(event \<Rightarrow> bool) \<Rightarrow> 'a prog \<Rightarrow> bool" where
  "appends P m \<longleftrightarrow>
     (\<forall>s r s'. m s = (r, s') \<longrightarrow> (\<exists>evs. trace s' = trace s @ evs \<and> list_all P evs))"


text \<open>
  The events of the three parts of the pipeline: of the part up to the base hash; of the
  direct mode attempt, whose lookups use a digest of the base stream followed by a separator;
  and of preprocessor mode with what follows, whose lookups use the digest of the base hasher
  after absorbing the preprocessor's output.
\<close>

fun front_event :: "event \<Rightarrow> bool" where
  "front_event (Call h) =
     (h = ResolveArgs \<or> h = GetCapabilities \<or> h = GetBuildFiles \<or> h = GetProgramId \<or>
      h = GetRelevantArguments \<or> h = GetRelevantEnvVars)"
| "front_event (Log level msg) = True"
| "front_event (StoreItem k v ttl) = True"
| "front_event ev = False"

fun direct_mode_event :: "world \<Rightarrow> hasher_t \<Rightarrow> event \<Rightarrow> bool" where
  "direct_mode_event w hasher (Call h) = (h = GetInputFiles)"
| "direct_mode_event w hasher (Log level msg) = True"
| "direct_mode_event w hasher (LookupDirect d) =
     (\<exists>rest. d = digest_of w (framed_stream hasher @ Sep # rest))"
| "direct_mode_event w hasher ev = False"

fun preprocessor_event :: "world \<Rightarrow> hasher_t \<Rightarrow> event \<Rightarrow> bool" where
  "preprocessor_event w hasher (Call h) =
     (h = PreprocessSource \<or> h = GetImplicitInputFiles \<or> h = RunForMiss)"
| "preprocessor_event w hasher (Log level msg) = True"
| "preprocessor_event w hasher (Lookup d) =
     (\<exists>preprocessed. preprocess_source w = Inr preprocessed \<and>
        d = final w (update preprocessed hasher))"
| "preprocessor_event w hasher (Add h entry) = True"
| "preprocessor_event w hasher (AddDirect d h implicit) = True"
| "preprocessor_event w hasher ev = False"

text \<open>The calls of the cache's \<^verbatim>\<open>add\<close> and \<^verbatim>\<open>add_direct\<close> in a trace.\<close>

fun is_add :: "event \<Rightarrow> bool" where
  "is_add (Add h entry) = True"
| "is_add ev = False"

fun is_add_direct :: "event \<Rightarrow> bool" where
  "is_add_direct (AddDirect d h implicit) = True"
| "is_add_direct ev = False"

text \<open>Events other than running the tool and inserting into the cache.\<close>

fun quiet_event :: "event \<Rightarrow> bool" where
  "quiet_event (Call h) = (h \<noteq> RunForMiss \<and> h \<noteq> GetImplicitInputFiles)"
| "quiet_event (Add h entry) = False"
| "quiet_event (AddDirect d h implicit) = False"
| "quiet_event ev = True"

text \<open>
  \<open>reaches_miss w caps expected_files hash s\<close>: the invocation gets to the miss handling
  (line 179) with these active capabilities, expected files and preprocessor mode hash, in
  state \<open>s\<close>. That is: the part up to the base hash went through, the direct mode attempt
  did not return (its lookup missed, failed or was not made), the preprocessor ran, and the
  primary lookup missed.
\<close>

definition reaches_miss ::
  "world \<Rightarrow> capabilities_t \<Rightarrow> expected_files_t \<Rightarrow> string \<Rightarrow> pstate \<Rightarrow> bool" where
  "reaches_miss w caps expected_files hash s \<longleftrightarrow>
     (\<exists>m_args hasher s1 s2 preprocessed rc.
        hashing_front w initial_state = (Inr (m_args, caps, expected_files, hasher), s1) \<and>
        direct_mode_attempt w m_args caps expected_files hasher s1 = (Inr False, s2) \<and>
        preprocess_source w = Inr preprocessed \<and>
        hash = final w (update preprocessed hasher) \<and>
        lookup w hash expected_files (m_hard_links caps) (m_create_target_dirs caps)
          (out_return_code s2) = Inr (False, rc) \<and>
        s = s2\<lparr>out_return_code := rc,
               trace := trace s2 @
                 [Call PreprocessSource, Lookup hash,
                  Log INFO (''Cache miss ('' @ hash @ '')'')]\<rparr>)"

section \<open>Example invocations\<close>

text \<open>
  A cold compile of \<open>a.cpp\<close> with direct mode published by the wrapper and enabled in the
  configuration: both lookups miss, the compiler runs and succeeds. The other examples
  change single answers of this one.
\<close>

definition example_config :: config where
  "example_config =
     \<lparr>direct_mode = True, hard_links = False, compress = False, read_only = False,
      terminate_on_miss = False, hash_extra_files = [''extra.txt'']\<rparr>"

definition example_files :: "string \<Rightarrow> exn + string" where
  "example_files p =
     (if p = ''a.cpp'' then Inr ''int x;''
      else if p = ''extra.txt'' then Inr ''e''
      else Inl (RuntimeError ''no such file''))"

definition example_world :: world where
  "example_world =
     \<lparr>cfg = example_config,
      digest_of = ideal_digest,
      m_exe_real_path = ''/usr/bin/g++'',
      resolve_args = Inr [''g++'', ''-c'', ''a.cpp''],
      get_capabilities = Inr [''direct_mode''],
      get_build_files = Inr (fmupd ''object'' \<lparr>path = ''a.o'', required = True\<rparr> fmempty),
      get_program_id = (\<lambda>n. Inr ''g++ 9''),
      get_relevant_arguments = Inr [''g++'', ''-c''],
      get_relevant_env_vars = Inr (fmupd ''LANG'' ''C'' fmempty),
      get_input_files = Inr [''a.cpp''],
      preprocess_source = Inr ''int x;'',
      get_implicit_input_files = Inr [],
      run_for_miss = Inr \<lparr>std_out = [], std_err = [], return_code = 0\<rparr>,
      read_file = example_files,
      resolve_path = (\<lambda>p. Inr (''/src/'' @ p)),
      file_exists = (\<lambda>p. p = ''a.o''),
      get_file_info = (\<lambda>p. Inr \<lparr>info_path = p, info_size = 100, info_modify_time = 5\<rparr>),
      get_item = (\<lambda>key. Inr None),
      store_item = (\<lambda>key v ttl. None),
      lookup_direct = (\<lambda>d expected hl ctd rc. Inr (False, rc)),
      lookup = (\<lambda>d expected hl ctd rc. Inr (False, rc)),
      add = (\<lambda>d entry expected hl. None),
      add_direct = (\<lambda>d h implicit. None)\<rparr>"

definition example_base :: hasher_t where
  "example_base =
     [FileData ''e'', Bytes ''g++ 9'', StringList [''g++'', ''-c''], StringMap [(''LANG'', ''C'')]]"

definition example_direct_digest :: string where
  "example_direct_digest =
     final example_world
       (example_base @
        [Separator, StringList [''g++'', ''-c'', ''a.cpp''], Bytes ''/src/a.cpp'', Separator,
         FileData ''int x;''])"

definition example_hash :: string where
  "example_hash = final example_world (example_base @ [Bytes ''int x;''])"

definition example_key :: string where
  "example_key =
     program_id_key example_world
       \<lparr>info_path = ''/usr/bin/g++'', info_size = 100, info_modify_time = 5\<rparr>"

definition example_entry :: cache_entry_t where
  "example_entry =
     \<lparr>entry_file_ids = [''object''], entry_compression_mode = COMP_NONE,
      entry_std_out = [], entry_std_err = [], entry_return_code = 0\<rparr>"

text \<open>
  The input file of direct mode cannot be read (hashing it throws a
  \<^verbatim>\<open>std::runtime_error\<close>), and the primary lookup hits.
\<close>

definition missing_input_files :: "string \<Rightarrow> exn + string" where
  "missing_input_files p =
     (if p = ''extra.txt'' then Inr ''e'' else Inl (RuntimeError ''no such file''))"

definition missing_input_world :: world where
  "missing_input_world =
     example_world\<lparr>read_file := missing_input_files,
                   lookup := (\<lambda>d expected hl ctd rc. Inr (True, 0))\<rparr>"

text \<open>The preprocessor fails, with the error of \<^verbatim>\<open>gcc_wrapper_t::preprocess_source\<close>.\<close>

definition preprocess_failed_world :: world where
  "preprocess_failed_world =
     example_world\<lparr>preprocess_source :=
       Inl (RuntimeError ''Preprocessing command was unsuccessful.'')\<rparr>"

text \<open>The direct mode lookup throws a \<^verbatim>\<open>std::runtime_error\<close>, and the primary lookup hits.\<close>

definition lookup_direct_failed_world :: world where
  "lookup_direct_failed_world =
     example_world\<lparr>lookup_direct := (\<lambda>d expected hl ctd rc. Inl (RuntimeError ''storage fault'')),
                   lookup := (\<lambda>d expected hl ctd rc. Inr (True, 0))\<rparr>"

text \<open>Both lookups miss and the configuration says \<open>terminate_on_miss\<close>.\<close>

definition terminate_world :: world where
  "terminate_world = example_world\<lparr>cfg := example_config\<lparr>terminate_on_miss := True\<rparr>\<rparr>"

text \<open>The compiler fails with exit code 2; and the cache is read-only.\<close>

definition failed_run_world :: world where
  "failed_run_world =
     example_world\<lparr>run_for_miss := Inr \<lparr>std_out = [], std_err = ''error'', return_code = 2\<rparr>\<rparr>"

definition read_only_world :: world where
  "read_only_world = example_world\<lparr>cfg := example_config\<lparr>read_only := True\<rparr>\<rparr>"


text \<open>The locals and states of the example invocations on their way to the miss handling.\<close>

definition example_caps :: capabilities_t where
  "example_caps = \<lparr>m_create_target_dirs = False, m_direct_mode = True, m_hard_links = False\<rparr>"

definition example_expected :: expected_files_t where
  "example_expected = fmupd ''object'' \<lparr>path = ''a.o'', required = True\<rparr> fmempty"

definition example_front_state :: pstate where
  "example_front_state =
     \<lparr>out_return_code = 1,
      direct_hash = [],
      trace =
        [Call ResolveArgs, Call GetCapabilities, Call GetBuildFiles,
         Log DEBUG ''Program ID cache miss for g++'', Call GetProgramId,
         StoreItem example_key ''g++ 9'' 300,
         Call GetRelevantArguments, Call GetRelevantEnvVars]\<rparr>"

definition example_direct_state :: pstate where
  "example_direct_state =
     example_front_state
       \<lparr>direct_hash := example_direct_digest,
        trace := trace example_front_state @
          [Call GetInputFiles, LookupDirect example_direct_digest]\<rparr>"

definition example_miss_state :: pstate where
  "example_miss_state =
     example_direct_state
       \<lparr>out_return_code := 1,
        trace := trace example_direct_state @
          [Call PreprocessSource, Lookup example_hash,
           Log INFO (''Cache miss ('' @ example_hash @ '')'')]\<rparr>"






section \<open>Theorems\<close>

section \<open>The GCC wrapper's command test\<close>

lemma string_find_None: "string_find s pat = None \<longleftrightarrow> \<not> sublist pat s"
  by (induction s) (auto simp: sublist_Cons_right)

text \<open>
  C10: \<open>can_handle_command\<close> accepts an argument vector iff it is non-empty and its first
  element contains \<open>gcc\<close> or \<open>g++\<close> as a contiguous substring, anywhere in the string; a
  path such as \<open>/opt/gcc-tools/ld\<close> is accepted.
\<close>

theorem can_handle_command_iff_substring:
  "can_handle_command args \<longleftrightarrow>
     args \<noteq> [] \<and> (sublist ''gcc'' (hd args) \<or> sublist ''g++'' (hd args))"
  by (cases args) (simp_all add: can_handle_command_def string_find_None del: not_None_eq)

theorem can_handle_command_witness:
  "can_handle_command [''/opt/gcc-tools/ld'', ''-o'', ''a.out'']
   \<and> sublist ''gcc'' ''/opt/gcc-tools/ld''
   \<and> \<not> can_handle_command []"
proof -
  have a: "sublist ''gcc'' ''/opt/gcc-tools/ld''"
    using sublist_appendI [of "''gcc''" "''/opt/''" "''-tools/ld''"] by simp
  show ?thesis
    using a
      can_handle_command_iff_substring [of "[''/opt/gcc-tools/ld'', ''-o'', ''a.out'']"]
      can_handle_command_iff_substring [of "[]"]
    by simp
qed

section \<open>Capability masking\<close>

lemma capability_step_create_target_dirs:
  "m_create_target_dirs (fst (capability_step conf str (caps, errs))) \<longleftrightarrow>
     m_create_target_dirs caps \<or> str = ''create_target_dirs''"
  by (simp add: capability_step_def)

lemma capability_step_direct_mode:
  "m_direct_mode (fst (capability_step conf str (caps, errs))) \<longleftrightarrow>
     m_direct_mode caps \<or> str = ''force_direct_mode'' \<or> (str = ''direct_mode'' \<and> direct_mode conf)"
  by (simp add: capability_step_def)

lemma capability_step_hard_links:
  "m_hard_links (fst (capability_step conf str (caps, errs))) \<longleftrightarrow>
     (if str = ''hard_links'' then hard_links conf else m_hard_links caps)"
  by (simp add: capability_step_def)

lemma capabilities_loop_create_target_dirs:
  "m_create_target_dirs (fst (capabilities_loop conf strs acc)) \<longleftrightarrow>
     m_create_target_dirs (fst acc) \<or> ''create_target_dirs'' \<in> set strs"
proof (induction strs arbitrary: acc)
  case Nil
  show ?case by simp
next
  case (Cons str strs)
  obtain caps errs where acc: "acc = (caps, errs)" by (cases acc)
  show ?case
    unfolding capabilities_loop.simps Cons.IH acc capability_step_create_target_dirs
    by (simp only: list.set insert_iff fst_conv) blast
qed

lemma capabilities_loop_direct_mode:
  "m_direct_mode (fst (capabilities_loop conf strs acc)) \<longleftrightarrow>
     m_direct_mode (fst acc) \<or> ''force_direct_mode'' \<in> set strs \<or>
     (''direct_mode'' \<in> set strs \<and> direct_mode conf)"
proof (induction strs arbitrary: acc)
  case Nil
  show ?case by simp
next
  case (Cons str strs)
  obtain caps errs where acc: "acc = (caps, errs)" by (cases acc)
  show ?case
    unfolding capabilities_loop.simps Cons.IH acc capability_step_direct_mode
    by (simp only: list.set insert_iff fst_conv) blast
qed

lemma capabilities_loop_hard_links:
  "m_hard_links (fst (capabilities_loop conf strs acc)) \<longleftrightarrow>
     (if ''hard_links'' \<in> set strs then hard_links conf else m_hard_links (fst acc))"
proof (induction strs arbitrary: acc)
  case Nil
  show ?case by simp
next
  case (Cons str strs)
  obtain caps errs where acc: "acc = (caps, errs)" by (cases acc)
  show ?case
    unfolding capabilities_loop.simps Cons.IH acc capability_step_hard_links
    by (simp only: list.set insert_iff fst_conv split: if_splits) blast
qed

text \<open>
  C4: a flag whose capability string is absent from the list stays off whatever the
  configuration says; \<open>hard_links\<close> is on iff it is published and enabled in the
  configuration; the direct mode flag is on iff the list contains \<open>force_direct_mode\<close>, or
  contains \<open>direct_mode\<close> while the configuration enables direct mode.
\<close>

theorem capabilities_masking:
  "(m_direct_mode (capabilities conf strs) \<longleftrightarrow>
      ''force_direct_mode'' \<in> set strs \<or> (''direct_mode'' \<in> set strs \<and> direct_mode conf)) \<and>
   (m_hard_links (capabilities conf strs) \<longleftrightarrow> ''hard_links'' \<in> set strs \<and> hard_links conf) \<and>
   (m_create_target_dirs (capabilities conf strs) \<longleftrightarrow> ''create_target_dirs'' \<in> set strs)"
  unfolding capabilities_def capabilities_ctor_def capabilities_loop_direct_mode
    capabilities_loop_hard_links capabilities_loop_create_target_dirs
  by (simp add: no_capabilities_def)

theorem capabilities_masking_witness:
  "m_direct_mode (capabilities
      \<lparr>direct_mode = False, hard_links = True, compress = False, read_only = False,
       terminate_on_miss = False, hash_extra_files = []\<rparr>
      [''direct_mode'', ''force_direct_mode''])
   \<and> \<not> m_direct_mode (capabilities
      \<lparr>direct_mode = False, hard_links = True, compress = False, read_only = False,
       terminate_on_miss = False, hash_extra_files = []\<rparr>
      [''direct_mode'', ''create_target_dirs''])
   \<and> \<not> m_hard_links (capabilities
      \<lparr>direct_mode = False, hard_links = True, compress = False, read_only = False,
       terminate_on_miss = False, hash_extra_files = []\<rparr>
      [''direct_mode'', ''create_target_dirs''])"
  using
    capabilities_masking [of
      "\<lparr>direct_mode = False, hard_links = True, compress = False, read_only = False,
        terminate_on_miss = False, hash_extra_files = []\<rparr>"
      "[''direct_mode'', ''force_direct_mode'']"]
    capabilities_masking [of
      "\<lparr>direct_mode = False, hard_links = True, compress = False, read_only = False,
        terminate_on_miss = False, hash_extra_files = []\<rparr>"
      "[''direct_mode'', ''create_target_dirs'']"]
  by simp

section \<open>Reasoning about running code\<close>

lemma bind_ret: "bind (ret a) f s = f a s"
  by (simp add: bind_def ret_def)

lemma bind_raise: "bind (raise e) f s = (Inl e, s)"
  by (simp add: bind_def raise_def)

lemma bind_outcome_Inr: "bind (outcome (Inr a)) f s = f a s"
  by (simp add: bind_def outcome_def)

lemma bind_outcome_Inl: "bind (outcome (Inl e)) f s = (Inl e, s)"
  by (simp add: bind_def outcome_def)

lemma bind_emit: "bind (emit ev) f s = f () (s\<lparr>trace := trace s @ [ev]\<rparr>)"
  by (simp add: bind_def emit_def)

lemma bind_debug_log: "bind (debug_log level msg) f s = f () (s\<lparr>trace := trace s @ [Log level msg]\<rparr>)"
  by (simp add: debug_log_def bind_emit)

lemma bind_assoc: "bind (bind m f) g = bind m (\<lambda>a. bind (f a) g)"
  by (rule ext) (simp add: bind_def split: prod.splits sum.splits)

lemma bind_call_Inr: "bind (call h (Inr a)) f s = f a (s\<lparr>trace := trace s @ [Call h]\<rparr>)"
  by (simp add: call_def bind_assoc bind_emit bind_outcome_Inr)

lemma bind_call_Inl: "bind (call h (Inl e)) f s = (Inl e, s\<lparr>trace := trace s @ [Call h]\<rparr>)"
  by (simp add: call_def bind_assoc bind_emit bind_outcome_Inl)

lemma bind_get_direct_hash: "bind get_direct_hash f s = f (direct_hash s) s"
  by (simp add: bind_def get_direct_hash_def)

lemma bind_set_direct_hash: "bind (set_direct_hash v) f s = f () (s\<lparr>direct_hash := v\<rparr>)"
  by (simp add: bind_def set_direct_hash_def)

lemma bind_set_return_code: "bind (set_return_code v) f s = f () (s\<lparr>out_return_code := v\<rparr>)"
  by (simp add: bind_def set_return_code_def)

lemma bind_void_outcome_None: "bind (void_outcome None) f s = f () s"
  by (simp add: void_outcome_def bind_outcome_Inr)

lemma bind_void_outcome_Some: "bind (void_outcome (Some e)) f s = (Inl e, s)"
  by (simp add: void_outcome_def bind_outcome_Inl)

lemmas run_simps =
  bind_ret bind_raise bind_outcome_Inr bind_outcome_Inl bind_emit bind_debug_log
  bind_call_Inr bind_call_Inl bind_get_direct_hash bind_set_direct_hash bind_set_return_code
  bind_void_outcome_None bind_void_outcome_Some bind_assoc

lemma bind_cases:
  assumes "bind m f s = (r, s'')"
  obtains (raised) e where "m s = (Inl e, s'')" "r = Inl e"
    | (continued) a s' where "m s = (Inr a, s')" "f a s' = (r, s'')"
  using assms by (auto simp: bind_def split: prod.splits sum.splits)

lemma try_catch_cases:
  assumes "try_catch m handler s = (r, s'')"
  obtains (caught) e s' where "m s = (Inl e, s')" "handler e s' = (r, s'')"
    | (passed) a where "m s = (Inr a, s'')" "r = Inr a"
  using assms by (auto simp: try_catch_def split: prod.splits sum.splits)

lemma appendsI:
  "(\<And>s r s'. m s = (r, s') \<Longrightarrow> \<exists>evs. trace s' = trace s @ evs \<and> list_all P evs) \<Longrightarrow> appends P m"
  by (simp add: appends_def)

lemma appendsD:
  "appends P m \<Longrightarrow> m s = (r, s') \<Longrightarrow> \<exists>evs. trace s' = trace s @ evs \<and> list_all P evs"
  by (simp add: appends_def)

lemma appends_ret: "appends P (ret a)"
  by (simp add: appends_def ret_def)

lemma appends_raise: "appends P (raise e)"
  by (simp add: appends_def raise_def)

lemma appends_outcome: "appends P (outcome r)"
  by (simp add: appends_def outcome_def)

lemma appends_void_outcome: "appends P (void_outcome r)"
  by (simp add: void_outcome_def appends_outcome)

lemma appends_emit: "P ev \<Longrightarrow> appends P (emit ev)"
  by (auto simp: appends_def emit_def)

lemma appends_debug_log: "P (Log level msg) \<Longrightarrow> appends P (debug_log level msg)"
  by (simp add: debug_log_def appends_emit)

lemma appends_get_direct_hash: "appends P get_direct_hash"
  by (simp add: appends_def get_direct_hash_def)

lemma appends_set_direct_hash: "appends P (set_direct_hash v)"
  by (auto simp: appends_def set_direct_hash_def)

lemma appends_set_return_code: "appends P (set_return_code v)"
  by (auto simp: appends_def set_return_code_def)

lemma appends_with_return_code: "appends P (with_return_code f)"
  by (auto simp: appends_def with_return_code_def split: sum.splits prod.splits)

lemma appends_bind_result:
  assumes "appends P m" and "\<And>a s s'. m s = (Inr a, s') \<Longrightarrow> appends P (f a)"
  shows "appends P (bind m f)"
proof (rule appendsI)
  fix s r s''
  assume "bind m f s = (r, s'')"
  then show "\<exists>evs. trace s'' = trace s @ evs \<and> list_all P evs"
  proof (cases rule: bind_cases)
    case (raised e)
    with assms(1) show ?thesis by (auto dest: appendsD)
  next
    case (continued a s')
    from appendsD [OF assms(1) continued(1)] obtain evs1 where
      1: "trace s' = trace s @ evs1" "list_all P evs1" by blast
    from appendsD [OF assms(2) [OF continued(1)] continued(2)] obtain evs2 where
      2: "trace s'' = trace s' @ evs2" "list_all P evs2" by blast
    from 1 2 have "trace s'' = trace s @ (evs1 @ evs2) \<and> list_all P (evs1 @ evs2)"
      by simp
    then show ?thesis by blast
  qed
qed

lemma appends_bind:
  assumes "appends P m" and "\<And>a. appends P (f a)"
  shows "appends P (bind m f)"
  using assms by (rule appends_bind_result)

lemma appends_try_catch:
  assumes "appends P m" and "\<And>e. appends P (handler e)"
  shows "appends P (try_catch m handler)"
proof (rule appendsI)
  fix s r s''
  assume "try_catch m handler s = (r, s'')"
  then show "\<exists>evs. trace s'' = trace s @ evs \<and> list_all P evs"
  proof (cases rule: try_catch_cases)
    case (caught e s')
    from appendsD [OF assms(1) caught(1)] obtain evs1 where
      1: "trace s' = trace s @ evs1" "list_all P evs1" by blast
    from appendsD [OF assms(2) caught(2)] obtain evs2 where
      2: "trace s'' = trace s' @ evs2" "list_all P evs2" by blast
    from 1 2 have "trace s'' = trace s @ (evs1 @ evs2) \<and> list_all P (evs1 @ evs2)"
      by simp
    then show ?thesis by blast
  next
    case (passed a)
    with assms(1) show ?thesis by (auto dest: appendsD)
  qed
qed

lemma appends_call: "P (Call h) \<Longrightarrow> appends P (call h r)"
  by (simp add: call_def appends_bind appends_emit appends_outcome)

lemma appends_call_get_program_id:
  assumes "P (Call GetProgramId)"
  shows "appends P (call_get_program_id w)"
proof (rule appendsI)
  fix s r s'
  assume "call_get_program_id w s = (r, s')"
  then have "call GetProgramId (get_program_id w (program_id_calls (trace s))) s = (r, s')"
    by (simp add: call_get_program_id_def)
  moreover have "appends P (call GetProgramId (get_program_id w (program_id_calls (trace s))))"
    using assms by (rule appends_call)
  ultimately show "\<exists>evs. trace s' = trace s @ evs \<and> list_all P evs"
    by (rule appendsD [rotated])
qed

lemma appends_weaken:
  "appends P m \<Longrightarrow> (\<And>ev. P ev \<Longrightarrow> Q ev) \<Longrightarrow> appends Q m"
  unfolding appends_def list_all_iff by blast

lemmas appends_intros =
  appends_ret appends_raise appends_outcome appends_void_outcome appends_emit appends_debug_log
  appends_get_direct_hash appends_set_direct_hash appends_set_return_code
  appends_with_return_code appends_bind appends_try_catch appends_call
  appends_call_get_program_id

section \<open>The events of each part of the pipeline\<close>

lemma appends_update_from_file: "appends P (update_from_file w file h)"
  by (simp add: update_from_file_def appends_intros)

lemma appends_hash_extra_files_loop: "appends P (hash_extra_files_loop w files h)"
  by (induction files arbitrary: h) (simp_all add: appends_intros appends_update_from_file)

lemma appends_hash_input_files_loop: "appends P (hash_input_files_loop w files h)"
  by (induction files arbitrary: h) (simp_all add: appends_intros appends_update_from_file)

lemma appends_log_all: "(\<And>msg. P (Log level msg)) \<Longrightarrow> appends P (log_all level msgs)"
  by (induction msgs) (simp_all add: appends_intros)

lemma appends_get_program_id_cached:
  assumes "P (Call GetProgramId)" and "\<And>level msg. P (Log level msg)"
    and "\<And>k v ttl. P (StoreItem k v ttl)"
  shows "appends P (get_program_id_cached w m_args)"
  unfolding get_program_id_cached_def
  by (intro appends_bind appends_try_catch)
     (simp_all add: assms appends_intros split: option.split exn.split)

lemma appends_front_base_hash: "appends front_event (base_hash w m_args)"
  unfolding base_hash_def
  by (intro appends_bind appends_hash_extra_files_loop appends_get_program_id_cached
        appends_call appends_ret) simp_all

lemma appends_front_read_capabilities: "appends front_event (read_capabilities w)"
  unfolding read_capabilities_def
  by (intro appends_bind appends_call appends_log_all appends_ret) simp_all

lemma appends_hashing_front: "appends front_event (hashing_front w)"
  unfolding hashing_front_def
  by (intro appends_bind appends_call appends_front_read_capabilities appends_front_base_hash
        appends_ret) simp_all

lemma update_from_file_result:
  "update_from_file w file h s = (r, s') \<Longrightarrow>
     s' = s \<and> (case r of Inl e \<Rightarrow> read_file w file = Inl e
                | Inr h' \<Rightarrow> \<exists>data. read_file w file = Inr data \<and> h' = h @ [FileData data])"
  by (cases "read_file w file") (auto simp: update_from_file_def run_simps ret_def)

lemma hash_input_files_loop_state: "hash_input_files_loop w files h s = (r, s') \<Longrightarrow> s' = s"
proof (induction files arbitrary: h)
  case Nil
  then show ?case by (simp add: ret_def)
next
  case (Cons f rest)
  from Cons.prems show ?case
    unfolding hash_input_files_loop.simps
  proof (cases rule: bind_cases)
    case (raised e)
    then show ?thesis by (simp add: outcome_def)
  next
    case (continued resolved s1)
    then have s1: "s1 = s" by (simp add: outcome_def)
    from continued(2) show ?thesis
    proof (cases rule: bind_cases)
      case (raised e)
      with s1 show ?thesis by (auto dest: update_from_file_result)
    next
      case (continued h' s2)
      with s1 have "s2 = s" by (auto dest: update_from_file_result)
      with continued(2) Cons.IH show ?thesis by blast
    qed
  qed
qed

lemma hash_input_files_loop_extends:
  "hash_input_files_loop w files h s = (Inr h', s') \<Longrightarrow> \<exists>ext. h' = h @ ext"
proof (induction files arbitrary: h s)
  case Nil
  then show ?case by (simp add: ret_def)
next
  case (Cons f rest)
  from Cons.prems show ?case
    unfolding hash_input_files_loop.simps
  proof (cases rule: bind_cases)
    case (continued resolved s1)
    from continued(2) show ?thesis
    proof (cases rule: bind_cases)
      case (continued h1 s2)
      from update_from_file_result [OF continued(1)] obtain data where
        "h1 = inject_separator (update resolved h) @ [FileData data]" by auto
      moreover from Cons.IH [OF continued(2)] obtain ext where "h' = h1 @ ext" ..
      ultimately have "h' = h @ ([Bytes resolved, Separator, FileData data] @ ext)"
        by (simp add: inject_separator_def update_def)
      then show ?thesis ..
    qed simp
  qed simp
qed

lemma direct_mode_hash_state: "direct_mode_hash w m_args files hasher s = (r, s') \<Longrightarrow> s' = s"
  unfolding direct_mode_hash_def
  by (erule bind_cases) (auto dest: hash_input_files_loop_state simp: ret_def)

lemma direct_mode_hash_separated:
  assumes "direct_mode_hash w m_args files hasher s = (Inr d, s')"
  shows "\<exists>rest. d = digest_of w (framed_stream hasher @ Sep # rest)"
  using assms unfolding direct_mode_hash_def
proof (cases rule: bind_cases)
  case (continued dm_hasher s1)
  from hash_input_files_loop_extends [OF continued(1)] obtain ext where
    "dm_hasher = update_list m_args (inject_separator hasher) @ ext" ..
  then have "framed_stream dm_hasher =
      framed_stream hasher @ Sep # (frame (StringList m_args) @ framed_stream ext)"
    by (simp add: framed_stream_def update_list_def inject_separator_def)
  moreover from continued(2) have "d = final w dm_hasher"
    by (simp add: ret_def)
  ultimately show ?thesis
    unfolding final_def by metis
qed simp

lemma appends_direct_mode_block:
  "appends (direct_mode_event w hasher) (direct_mode_block w m_args caps expected_files hasher)"
  unfolding direct_mode_block_def
proof (intro appends_bind appends_call)
  fix input_files
  show "appends (direct_mode_event w hasher)
     (if length input_files > 0 then
        bind (direct_mode_hash w m_args input_files hasher) (\<lambda>digest.
        bind (set_direct_hash digest) (\<lambda>_.
        bind (emit (LookupDirect digest)) (\<lambda>_.
        with_return_code
          (lookup_direct w digest expected_files (m_hard_links caps)
             (m_create_target_dirs caps)))))
      else ret False)"
  proof (cases "length input_files > 0")
    case False
    then show ?thesis by (simp add: appends_ret)
  next
    case True
    have "appends (direct_mode_event w hasher)
       (bind (direct_mode_hash w m_args input_files hasher) (\<lambda>digest.
        bind (set_direct_hash digest) (\<lambda>_.
        bind (emit (LookupDirect digest)) (\<lambda>_.
        with_return_code
          (lookup_direct w digest expected_files (m_hard_links caps)
             (m_create_target_dirs caps))))))"
    proof (rule appends_bind_result)
      show "appends (direct_mode_event w hasher) (direct_mode_hash w m_args input_files hasher)"
        unfolding direct_mode_hash_def
        by (intro appends_bind appends_hash_input_files_loop appends_ret)
    next
      fix digest s s'
      assume "direct_mode_hash w m_args input_files hasher s = (Inr digest, s')"
      from direct_mode_hash_separated [OF this]
      have "direct_mode_event w hasher (LookupDirect digest)" by simp
      then show "appends (direct_mode_event w hasher)
         (bind (set_direct_hash digest) (\<lambda>_.
          bind (emit (LookupDirect digest)) (\<lambda>_.
          with_return_code
            (lookup_direct w digest expected_files (m_hard_links caps)
               (m_create_target_dirs caps)))))"
        by (intro appends_bind appends_set_direct_hash appends_emit appends_with_return_code)
    qed
    with True show ?thesis by simp
  qed
qed simp

lemma appends_direct_mode_handler: "appends (direct_mode_event w hasher) (direct_mode_handler e)"
  by (cases e) (simp_all add: direct_mode_handler_def appends_intros)

lemma appends_direct_mode_attempt:
  "appends (direct_mode_event w hasher) (direct_mode_attempt w m_args caps expected_files hasher)"
  by (simp add: direct_mode_attempt_def appends_ret appends_try_catch
        appends_direct_mode_block appends_direct_mode_handler)

lemma appends_add_direct_entry:
  assumes "P (Call GetImplicitInputFiles)" and "\<And>d h implicit. P (AddDirect d h implicit)"
  shows "appends P (add_direct_entry w hash)"
  unfolding add_direct_entry_def
  by (intro appends_bind appends_get_direct_hash)
     (simp add: assms appends_intros)

lemma appends_miss_handling:
  "appends (preprocessor_event w hasher) (miss_handling w caps expected_files hash)"
  unfolding miss_handling_def
  by (simp add: appends_intros appends_add_direct_entry)

lemma call_result: "call h r s = (Inr a, s') \<Longrightarrow> r = Inr a"
  by (cases r) (simp_all add: call_def run_simps outcome_def)

lemma appends_preprocessor_mode:
  "appends (preprocessor_event w hasher) (preprocessor_mode w caps expected_files hasher)"
  unfolding preprocessor_mode_def
proof (rule appends_bind_result)
  show "appends (preprocessor_event w hasher) (call PreprocessSource (preprocess_source w))"
    by (simp add: appends_call)
next
  fix preprocessed s s'
  assume "call PreprocessSource (preprocess_source w) s = (Inr preprocessed, s')"
  then have "preprocess_source w = Inr preprocessed" by (rule call_result)
  then have "preprocessor_event w hasher (Lookup (final w (update preprocessed hasher)))"
    by simp
  then show "appends (preprocessor_event w hasher)
     (bind (emit (Lookup (final w (update preprocessed hasher)))) (\<lambda>_.
      bind (with_return_code
              (lookup w (final w (update preprocessed hasher)) expected_files (m_hard_links caps)
                 (m_create_target_dirs caps))) (\<lambda>found.
      if found then
        bind (add_direct_entry w (final w (update preprocessed hasher))) (\<lambda>_.
        bind (debug_log INFO (''Cache hit ('' @ final w (update preprocessed hasher) @ '')'')) (\<lambda>_.
        ret True))
      else
        bind (debug_log INFO (''Cache miss ('' @ final w (update preprocessed hasher) @ '')'')) (\<lambda>_.
        miss_handling w caps expected_files (final w (update preprocessed hasher))))))"
    by (intro appends_bind appends_emit appends_with_return_code)
       (simp_all add: appends_intros appends_add_direct_entry appends_miss_handling)
qed


lemma outer_handler_result:
  "outer_handler e s =
     (Inr False, s\<lparr>trace := trace s @
        [case e of UnknownException \<Rightarrow> Log ERROR ''UNEXPECTED EXCEPTION''
         | _ \<Rightarrow> Log DEBUG (''Exception: '' @ what e)]\<rparr>)"
  by (cases e) (simp_all add: outer_handler_def run_simps ret_def)


section \<open>The example invocations, run\<close>



lemma sorted_list_of_fmap_single: "sorted_list_of_fmap (fmupd k v fmempty) = [(k, v)]"
  by (simp add: sorted_list_of_fmap_def sorted_list_of_fset.rep_eq)


lemma example_world_fields:
  "cfg example_world = example_config"
  "digest_of example_world = ideal_digest"
  "m_exe_real_path example_world = ''/usr/bin/g++''"
  "resolve_args example_world = Inr [''g++'', ''-c'', ''a.cpp'']"
  "get_capabilities example_world = Inr [''direct_mode'']"
  "get_build_files example_world = Inr (fmupd ''object'' \<lparr>path = ''a.o'', required = True\<rparr> fmempty)"
  "get_program_id example_world = (\<lambda>n. Inr ''g++ 9'')"
  "get_relevant_arguments example_world = Inr [''g++'', ''-c'']"
  "get_relevant_env_vars example_world = Inr (fmupd ''LANG'' ''C'' fmempty)"
  "get_input_files example_world = Inr [''a.cpp'']"
  "preprocess_source example_world = Inr ''int x;''"
  "get_implicit_input_files example_world = Inr []"
  "run_for_miss example_world = Inr \<lparr>std_out = [], std_err = [], return_code = 0\<rparr>"
  "read_file example_world = example_files"
  "resolve_path example_world = (\<lambda>p. Inr (''/src/'' @ p))"
  "file_exists example_world = (\<lambda>p. p = ''a.o'')"
  "get_file_info example_world = (\<lambda>p. Inr \<lparr>info_path = p, info_size = 100, info_modify_time = 5\<rparr>)"
  "get_item example_world = (\<lambda>key. Inr None)"
  "store_item example_world = (\<lambda>key v ttl. None)"
  "lookup_direct example_world = (\<lambda>d expected hl ctd rc. Inr (False, rc))"
  "lookup example_world = (\<lambda>d expected hl ctd rc. Inr (False, rc))"
  "add example_world = (\<lambda>d entry expected hl. None)"
  "add_direct example_world = (\<lambda>d h implicit. None)"
  by (simp_all add: example_world_def)

lemmas pipeline_defs =
  handle_command_def pipeline_body_def hashing_front_def read_capabilities_def base_hash_def
  get_program_id_cached_def direct_mode_attempt_def direct_mode_block_def
  direct_mode_handler_def direct_mode_hash_def preprocessor_mode_def miss_handling_def
  add_direct_entry_def outer_handler_def update_from_file_def call_get_program_id_def
  with_return_code_def try_catch_def initial_state_def collect_file_ids_def make_entry_def

lemmas monad_defs =
  bind_def ret_def raise_def outcome_def emit_def debug_log_def call_def get_direct_hash_def
  set_direct_hash_def set_return_code_def void_outcome_def




lemma ideal_digest_not_empty: "ideal_digest ts \<noteq> []"
  by (simp add: ideal_digest_def)

lemmas example_defs =
  example_config_def example_files_def example_base_def example_direct_digest_def
  example_hash_def example_key_def example_entry_def missing_input_files_def
  missing_input_world_def preprocess_failed_world_def lookup_direct_failed_world_def
  terminate_world_def failed_run_world_def read_only_world_def
  example_caps_def example_expected_def example_front_state_def example_direct_state_def
  example_miss_state_def

lemmas run_defs =
  pipeline_defs monad_defs example_world_fields example_defs sorted_list_of_fmap_single
  capabilities_def capabilities_ctor_def capability_step_def no_capabilities_def
  update_def update_list_def update_map_def inject_separator_def
  PROGRAM_ID_CACHE_LIFE_TIME_def first_arg_def final_def program_id_key_def
  ideal_digest_not_empty

lemma example_run:
  "handle_command example_world =
     (True,
      \<lparr>out_return_code = 0,
       direct_hash = example_direct_digest,
       trace =
         [Call ResolveArgs, Call GetCapabilities, Call GetBuildFiles,
          Log DEBUG ''Program ID cache miss for g++'', Call GetProgramId,
          StoreItem example_key ''g++ 9'' 300,
          Call GetRelevantArguments, Call GetRelevantEnvVars, Call GetInputFiles,
          LookupDirect example_direct_digest,
          Call PreprocessSource,
          Lookup example_hash,
          Log INFO (''Cache miss ('' @ example_hash @ '')''),
          Call RunForMiss,
          Add example_hash example_entry,
          Call GetImplicitInputFiles,
          AddDirect example_direct_digest example_hash []]\<rparr>)"
  by (simp add: run_defs)


lemma preprocess_failed_run:
  "handle_command preprocess_failed_world =
     (False,
      \<lparr>out_return_code = 1,
       direct_hash = example_direct_digest,
       trace =
         [Call ResolveArgs, Call GetCapabilities, Call GetBuildFiles,
          Log DEBUG ''Program ID cache miss for g++'', Call GetProgramId,
          StoreItem example_key ''g++ 9'' 300,
          Call GetRelevantArguments, Call GetRelevantEnvVars, Call GetInputFiles,
          LookupDirect example_direct_digest,
          Call PreprocessSource,
          Log DEBUG ''Exception: Preprocessing command was unsuccessful.'']\<rparr>)"
  by (simp add: run_defs)


lemma terminate_run:
  "handle_command terminate_world =
     (True,
      \<lparr>out_return_code = 1,
       direct_hash = example_direct_digest,
       trace =
         [Call ResolveArgs, Call GetCapabilities, Call GetBuildFiles,
          Log DEBUG ''Program ID cache miss for g++'', Call GetProgramId,
          StoreItem example_key ''g++ 9'' 300,
          Call GetRelevantArguments, Call GetRelevantEnvVars, Call GetInputFiles,
          LookupDirect example_direct_digest,
          Call PreprocessSource,
          Lookup example_hash,
          Log INFO (''Cache miss ('' @ example_hash @ '')''),
          Log INFO ''Terminating! Expected files: a.o'']\<rparr>)"
  by (simp add: run_defs)



section \<open>Domain separation of the two digests\<close>



section \<open>Exceptions and the outer boundary\<close>

lemma try_catch_Inr: "m s = (Inr a, s') \<Longrightarrow> try_catch m handler s = (Inr a, s')"
  by (simp add: try_catch_def)

lemma try_catch_Inl: "m s = (Inl e, s') \<Longrightarrow> try_catch m handler s = handler e s'"
  by (simp add: try_catch_def)







section \<open>After a miss\<close>





lemma miss_handling_terminate:
  "terminate_on_miss (cfg w) \<Longrightarrow>
     miss_handling w caps expected_files hash s =
       (Inr True,
        s\<lparr>out_return_code := 1,
          trace := trace s @
            [Log INFO (''Terminating! Expected files: '' @
               join '', '' (map (\<lambda>file. path (snd file)) (sorted_list_of_fmap expected_files)))]\<rparr>)"
  by (simp add: miss_handling_def run_simps ret_def)



lemma front_event_quiet: "front_event ev \<Longrightarrow> quiet_event ev"
  by (cases ev) auto

lemma direct_mode_event_quiet: "direct_mode_event w hasher ev \<Longrightarrow> quiet_event ev"
  by (cases ev) auto

lemma quiet_event_simps:
  "quiet_event ev \<Longrightarrow> ev \<noteq> Call RunForMiss \<and> \<not> is_add ev \<and> \<not> is_add_direct ev"
  by (cases ev) auto

lemma front_quiet:
  assumes "hashing_front w initial_state = (r1, s1)"
  shows "list_all quiet_event (trace s1)"
proof -
  from appendsD [OF appends_hashing_front assms] obtain evs1 where
    "trace s1 = evs1" "list_all front_event evs1" by (auto simp: initial_state_def)
  then show ?thesis
    by (auto simp: list_all_iff front_event_quiet)
qed

lemma direct_mode_quiet:
  assumes "list_all quiet_event (trace s1)"
    and "direct_mode_attempt w m_args caps expected_files hasher s1 = (r2, s2)"
  shows "list_all quiet_event (trace s2)"
proof -
  from appendsD [OF appends_direct_mode_attempt assms(2)] obtain evs2 where
    "trace s2 = trace s1 @ evs2" "list_all (direct_mode_event w hasher) evs2" by blast
  with assms(1) show ?thesis
    by (auto simp: list_all_iff direct_mode_event_quiet)
qed

lemma reaches_missI:
  assumes "hashing_front w initial_state = (Inr (m_args, caps, expected_files, hasher), s1)"
    and "direct_mode_attempt w m_args caps expected_files hasher s1 = (Inr False, s2)"
    and "preprocess_source w = Inr preprocessed"
    and "lookup w (final w (update preprocessed hasher)) expected_files (m_hard_links caps)
           (m_create_target_dirs caps) (out_return_code s2) = Inr (False, rc)"
  shows "reaches_miss w caps expected_files (final w (update preprocessed hasher))
     (s2\<lparr>out_return_code := rc,
         trace := trace s2 @
           [Call PreprocessSource, Lookup (final w (update preprocessed hasher)),
            Log INFO (''Cache miss ('' @ final w (update preprocessed hasher) @ '')'')]\<rparr>)"
  unfolding reaches_miss_def using assms by blast

lemma reaches_miss_quiet:
  assumes "reaches_miss w caps expected_files hash s"
  shows "list_all quiet_event (trace s)"
proof -
  from assms obtain m_args hasher s1 s2 rc where
    front: "hashing_front w initial_state = (Inr (m_args, caps, expected_files, hasher), s1)"
    and dm: "direct_mode_attempt w m_args caps expected_files hasher s1 = (Inr False, s2)"
    and s: "s = s2\<lparr>out_return_code := rc,
               trace := trace s2 @
                 [Call PreprocessSource, Lookup hash,
                  Log INFO (''Cache miss ('' @ hash @ '')'')]\<rparr>"
    unfolding reaches_miss_def by blast
  from direct_mode_quiet [OF front_quiet [OF front] dm] s show ?thesis
    by simp
qed

lemma reaches_miss_body:
  "reaches_miss w caps expected_files hash s \<Longrightarrow>
     pipeline_body w initial_state = miss_handling w caps expected_files hash s"
  unfolding reaches_miss_def
  by (auto simp: pipeline_body_def preprocessor_mode_def bind_def with_return_code_def
        call_def emit_def outcome_def debug_log_def)



lemma handle_command_body:
  assumes "pipeline_body w initial_state = (r, s)"
  shows "fst (handle_command w) = (r = Inr True)"
    and "\<exists>logs. trace (snd (handle_command w)) = trace s @ logs \<and>
           list_all (\<lambda>ev. \<exists>level msg. ev = Log level msg) logs"
    and "direct_hash (snd (handle_command w)) = direct_hash s"
    and "out_return_code (snd (handle_command w)) = out_return_code s"
  using assms
  by (cases r; cases "projr r"; auto simp: handle_command_def try_catch_def outer_handler_result
        split: exn.splits)+



section \<open>Terminating on a miss, and the insertion gate\<close>

lemma terminate_front:
  "hashing_front terminate_world initial_state =
     (Inr ([''g++'', ''-c'', ''a.cpp''], example_caps, example_expected, example_base),
      example_front_state)"
  by (simp add: run_defs)

lemma terminate_direct:
  "direct_mode_attempt terminate_world [''g++'', ''-c'', ''a.cpp''] example_caps example_expected
     example_base example_front_state = (Inr False, example_direct_state)"
  by (simp add: run_defs)

lemma terminate_reaches_miss:
  "reaches_miss terminate_world example_caps example_expected example_hash example_miss_state"
proof -
  have pp: "preprocess_source terminate_world = Inr ''int x;''"
    by (simp add: terminate_world_def example_world_fields)
  have lk: "lookup terminate_world (final terminate_world (update ''int x;'' example_base))
      example_expected (m_hard_links example_caps) (m_create_target_dirs example_caps)
      (out_return_code example_direct_state) = Inr (False, 1)"
    by (simp add: terminate_world_def example_world_fields example_direct_state_def
          example_front_state_def)
  have h: "final terminate_world (update ''int x;'' example_base) = example_hash"
    by (simp add: final_def update_def example_hash_def terminate_world_def)
  from reaches_missI [OF terminate_front terminate_direct pp lk] show ?thesis
    unfolding h by (simp add: example_miss_state_def)
qed

text \<open>
  C7: when both lookups miss (the invocation reaches the miss handling) and
  \<open>terminate_on_miss\<close> is configured, \<^verbatim>\<open>handle_command\<close> returns true with return code 1;
  all it still does is write the log line: the tool is not run, and neither \<^verbatim>\<open>add\<close> nor
  \<^verbatim>\<open>add_direct\<close> is called anywhere in the invocation.
\<close>

theorem terminate_on_miss_handled:
  assumes "reaches_miss w caps expected_files hash s" and "terminate_on_miss (cfg w)"
  shows "handle_command w =
      (True,
       s\<lparr>out_return_code := 1,
         trace := trace s @
           [Log INFO (''Terminating! Expected files: '' @
              join '', '' (map (\<lambda>file. path (snd file)) (sorted_list_of_fmap expected_files)))]\<rparr>)
    \<and> Call RunForMiss \<notin> set (trace (snd (handle_command w)))
    \<and> \<not> list_ex is_add (trace (snd (handle_command w)))
    \<and> \<not> list_ex is_add_direct (trace (snd (handle_command w)))"
proof -
  let ?s' = "s\<lparr>out_return_code := 1,
         trace := trace s @
           [Log INFO (''Terminating! Expected files: '' @
              join '', '' (map (\<lambda>file. path (snd file)) (sorted_list_of_fmap expected_files)))]\<rparr>"
  from reaches_miss_body [OF assms(1)] miss_handling_terminate [OF assms(2)]
  have "pipeline_body w initial_state = (Inr True, ?s')"
    by simp
  then have hc: "handle_command w = (True, ?s')"
    by (simp add: handle_command_def try_catch_def)
  from reaches_miss_quiet [OF assms(1)] have
    "\<forall>ev \<in> set (trace s). ev \<noteq> Call RunForMiss \<and> \<not> is_add ev \<and> \<not> is_add_direct ev"
    by (auto simp: list_all_iff dest: quiet_event_simps)
  with hc show ?thesis
    by (auto simp: list_ex_iff)
qed

theorem terminate_on_miss_handled_witness:
  "reaches_miss terminate_world example_caps example_expected example_hash example_miss_state
   \<and> terminate_on_miss (cfg terminate_world)
   \<and> fst (handle_command terminate_world) = True
   \<and> out_return_code (snd (handle_command terminate_world)) = 1
   \<and> Call RunForMiss \<notin> set (trace (snd (handle_command terminate_world)))
   \<and> \<not> list_ex is_add (trace (snd (handle_command terminate_world)))
   \<and> \<not> list_ex is_add_direct (trace (snd (handle_command terminate_world)))"
proof -
  have t: "terminate_on_miss (cfg terminate_world)"
    by (simp add: terminate_world_def example_config_def)
  from terminate_on_miss_handled [OF terminate_reaches_miss t] terminate_reaches_miss t
  show ?thesis by (elim conjE) simp
qed



section \<open>Failures of the direct mode attempt\<close>




lemma lookup_direct_failed_front:
  "hashing_front lookup_direct_failed_world initial_state =
     (Inr ([''g++'', ''-c'', ''a.cpp''], example_caps, example_expected, example_base),
      example_front_state)"
  by (simp add: run_defs)




section \<open>What the base hasher absorbs\<close>

lemma hash_extra_files_loop_result:
  "hash_extra_files_loop w files h s = (Inr h', s') \<Longrightarrow>
     \<exists>contents. map (read_file w) files = map Inr contents \<and> h' = h @ map FileData contents"
proof (induction files arbitrary: h s)
  case Nil
  then show ?case by (simp add: ret_def)
next
  case (Cons f rest)
  from Cons.prems show ?case
    unfolding hash_extra_files_loop.simps
  proof (cases rule: bind_cases)
    case (continued h1 s1)
    from update_from_file_result [OF continued(1)] obtain data where
      data: "read_file w f = Inr data" "h1 = h @ [FileData data]" by auto
    from Cons.IH [OF continued(2)] obtain contents where
      "map (read_file w) rest = map Inr contents" "h' = h1 @ map FileData contents" by blast
    with data have "map (read_file w) (f # rest) = map Inr (data # contents) \<and>
        h' = h @ map FileData (data # contents)" by simp
    then show ?thesis by blast
  qed simp
qed

lemma base_hash_result:
  assumes "base_hash w m_args s = (Inr hasher, s')"
  shows "\<exists>contents program_id relevant_arguments relevant_env_vars.
      map (read_file w) (hash_extra_files (cfg w)) = map Inr contents \<and>
      (\<exists>s1 s2. get_program_id_cached w m_args s1 = (Inr program_id, s2)) \<and>
      get_relevant_arguments w = Inr relevant_arguments \<and>
      get_relevant_env_vars w = Inr relevant_env_vars \<and>
      hasher = map FileData contents @
        [Bytes program_id, StringList relevant_arguments,
         StringMap (sorted_list_of_fmap relevant_env_vars)]"
  using assms unfolding base_hash_def
proof (cases rule: bind_cases)
  case files: (continued h1 s1)
  from hash_extra_files_loop_result [OF files(1)] obtain contents where
    contents: "map (read_file w) (hash_extra_files (cfg w)) = map Inr contents"
      "h1 = map FileData contents" by auto
  from files(2) show ?thesis
  proof (cases rule: bind_cases)
    case pid: (continued program_id s2)
    from pid(2) show ?thesis
    proof (cases rule: bind_cases)
      case args: (continued relevant_arguments s3)
      from args(2) show ?thesis
      proof (cases rule: bind_cases)
        case env: (continued relevant_env_vars s4)
        from env(2) have "hasher = update_map relevant_env_vars
            (update_list relevant_arguments (update program_id h1))"
          by (simp add: ret_def)
        with contents have "hasher = map FileData contents @
            [Bytes program_id, StringList relevant_arguments,
             StringMap (sorted_list_of_fmap relevant_env_vars)]"
          by (simp add: update_map_def update_list_def update_def)
        with contents(1) pid(1) call_result [OF args(1)] call_result [OF env(1)]
        show ?thesis by blast
      qed simp
    qed simp
  qed simp
qed simp

lemma hashing_front_result:
  assumes "hashing_front w s = (Inr (m_args, caps, expected_files, hasher), s')"
  shows "resolve_args w = Inr m_args \<and> get_build_files w = Inr expected_files \<and>
     (\<exists>cap_strings. get_capabilities w = Inr cap_strings \<and>
        caps = capabilities (cfg w) cap_strings) \<and>
     (\<exists>s1 s2. base_hash w m_args s1 = (Inr hasher, s2))"
  using assms unfolding hashing_front_def
proof (cases rule: bind_cases)
  case resolve: (continued m_args' s1)
  from resolve(2) show ?thesis
  proof (cases rule: bind_cases)
    case caps: (continued caps' s2)
    from caps(1) have caps': "\<exists>cap_strings. get_capabilities w = Inr cap_strings \<and>
        caps' = capabilities (cfg w) cap_strings"
      unfolding read_capabilities_def
      by (elim bind_cases) (auto simp: ret_def dest: call_result)
    from caps(2) show ?thesis
    proof (cases rule: bind_cases)
      case files: (continued expected_files' s3)
      from files(2) show ?thesis
      proof (cases rule: bind_cases)
        case base: (continued hasher' s4)
        from base(2) have "m_args' = m_args" "caps' = caps" "expected_files' = expected_files"
          "hasher' = hasher"
          by (simp_all add: ret_def)
        with call_result [OF resolve(1)] caps' call_result [OF files(1)] base(1)
        show ?thesis by blast
      qed simp
    qed simp
  qed simp
qed simp

lemma no_lookup_front: "list_all front_event evs \<Longrightarrow> Lookup h \<notin> set evs"
proof
  assume "list_all front_event evs" "Lookup h \<in> set evs"
  then have "front_event (Lookup h)" unfolding list_all_iff by (rule bspec)
  then show False by simp
qed

lemma no_lookup_direct_mode:
  "list_all (direct_mode_event w hasher) evs \<Longrightarrow> Lookup h \<notin> set evs"
proof
  assume "list_all (direct_mode_event w hasher) evs" "Lookup h \<in> set evs"
  then have "direct_mode_event w hasher (Lookup h)" unfolding list_all_iff by (rule bspec)
  then show False by simp
qed

lemma lookup_event_origin:
  assumes "Lookup h \<in> set (trace (snd (handle_command w)))"
  shows "\<exists>m_args caps expected_files hasher s1 preprocessed.
      hashing_front w initial_state = (Inr (m_args, caps, expected_files, hasher), s1) \<and>
      preprocess_source w = Inr preprocessed \<and> h = final w (update preprocessed hasher)"
proof -
  obtain r s where body: "pipeline_body w initial_state = (r, s)"
    by (cases "pipeline_body w initial_state")
  from handle_command_body(2) [OF body] assms have lk: "Lookup h \<in> set (trace s)"
    by (auto simp: list_all_iff)
  from body show ?thesis
    unfolding pipeline_body_def
  proof (cases rule: bind_cases)
    case (raised e)
    from appendsD [OF appends_hashing_front raised(1)] lk show ?thesis
      by (auto simp: initial_state_def dest: no_lookup_front)
  next
    case (continued front s1)
    obtain m_args caps expected_files hasher where
      front: "front = (m_args, caps, expected_files, hasher)" by (cases front)
    from appendsD [OF appends_hashing_front continued(1)] have n1: "Lookup h \<notin> set (trace s1)"
      by (auto simp: initial_state_def dest: no_lookup_front)
    from continued(2) front have
      "bind (direct_mode_attempt w m_args caps expected_files hasher) (\<lambda>returned.
         if returned then ret True else preprocessor_mode w caps expected_files hasher) s1 = (r, s)"
      by simp
    then show ?thesis
    proof (cases rule: bind_cases)
      case (raised e)
      from appendsD [OF appends_direct_mode_attempt raised(1)] n1 lk show ?thesis
        by (auto dest: no_lookup_direct_mode)
    next
      case dm: (continued returned s2)
      from appendsD [OF appends_direct_mode_attempt dm(1)] n1 have n2:
        "Lookup h \<notin> set (trace s2)"
        by (auto dest: no_lookup_direct_mode)
      show ?thesis
      proof (cases returned)
        case True
        with dm(2) n2 lk show ?thesis by (simp add: ret_def)
      next
        case False
        with dm(2) have "preprocessor_mode w caps expected_files hasher s2 = (r, s)"
          by simp
        from appendsD [OF appends_preprocessor_mode this] obtain evs3 where
          evs3: "trace s = trace s2 @ evs3" "list_all (preprocessor_event w hasher) evs3"
          by blast
        from evs3(1) n2 lk have "Lookup h \<in> set evs3" by simp
        with evs3(2) have "preprocessor_event w hasher (Lookup h)"
          unfolding list_all_iff by (rule bspec)
        then obtain preprocessed where
          "preprocess_source w = Inr preprocessed" "h = final w (update preprocessed hasher)"
          by auto
        with continued(1) front show ?thesis by blast
      qed
    qed
  qed
qed

lemma sorted_list_of_fmap_keys:
  "map fst (sorted_list_of_fmap m) = sorted_list_of_fset (fmdom m)"
  by (simp add: sorted_list_of_fmap_def comp_def)

lemma preprocessor_hash_contents:
  assumes "Lookup h \<in> set (trace (snd (handle_command w)))"
  shows "\<exists>m_args contents program_id relevant_arguments relevant_env_vars preprocessed.
      resolve_args w = Inr m_args \<and>
      map (read_file w) (hash_extra_files (cfg w)) = map Inr contents \<and>
      (\<exists>s1 s2. get_program_id_cached w m_args s1 = (Inr program_id, s2)) \<and>
      get_relevant_arguments w = Inr relevant_arguments \<and>
      get_relevant_env_vars w = Inr relevant_env_vars \<and>
      preprocess_source w = Inr preprocessed \<and>
      h = final w
        (map FileData contents @
         [Bytes program_id, StringList relevant_arguments,
          StringMap (sorted_list_of_fmap relevant_env_vars), Bytes preprocessed]) \<and>
      sorted (map fst (sorted_list_of_fmap relevant_env_vars)) \<and>
      frame (StringMap (sorted_list_of_fmap relevant_env_vars)) =
        frame (StringList
          (map (\<lambda>kv. fst kv @ ''='' @ snd kv) (sorted_list_of_fmap relevant_env_vars)))"
proof -
  from lookup_event_origin [OF assms] obtain m_args caps expected_files hasher s1 preprocessed
    where front: "hashing_front w initial_state = (Inr (m_args, caps, expected_files, hasher), s1)"
      and pp: "preprocess_source w = Inr preprocessed"
      and h: "h = final w (update preprocessed hasher)"
    by blast
  from hashing_front_result [OF front] obtain s2 s3 where
    args: "resolve_args w = Inr m_args" and base: "base_hash w m_args s2 = (Inr hasher, s3)"
    by blast
  from base_hash_result [OF base] obtain contents program_id relevant_arguments relevant_env_vars
    where parts: "map (read_file w) (hash_extra_files (cfg w)) = map Inr contents"
      "\<exists>s1 s2. get_program_id_cached w m_args s1 = (Inr program_id, s2)"
      "get_relevant_arguments w = Inr relevant_arguments"
      "get_relevant_env_vars w = Inr relevant_env_vars"
      "hasher = map FileData contents @
        [Bytes program_id, StringList relevant_arguments,
         StringMap (sorted_list_of_fmap relevant_env_vars)]"
    by blast
  from h parts(5) have "h = final w
        (map FileData contents @
         [Bytes program_id, StringList relevant_arguments,
          StringMap (sorted_list_of_fmap relevant_env_vars), Bytes preprocessed])"
    by (simp add: update_def)
  moreover have "sorted (map fst (sorted_list_of_fmap relevant_env_vars))"
    by (simp add: sorted_list_of_fmap_keys sorted_list_of_fset.rep_eq)
  moreover have "frame (StringMap (sorted_list_of_fmap relevant_env_vars)) =
        frame (StringList
          (map (\<lambda>kv. fst kv @ ''='' @ snd kv) (sorted_list_of_fmap relevant_env_vars)))"
    by simp
  ultimately show ?thesis
    using args pp parts(1-4) by blast
qed


text \<open>
  C5: whenever the part of the pipeline up to the base hash goes through, the base hasher
  has absorbed, in this order and nothing else: the contents of the files of
  \<open>hash_extra_files\<close> in list order, the program id returned by \<^verbatim>\<open>get_program_id_cached\<close>,
  the relevant arguments, and the relevant environment variables in increasing key order.
  Every hash that an invocation looks up in preprocessor mode is the digest of this state
  after it has absorbed the preprocessor's output as well. A string map is framed like the
  list of its strings \<open>key=value\<close>.
\<close>

theorem base_hash_order:
  "(hashing_front w initial_state = (Inr (m_args, caps, expected_files, hasher), s) \<longrightarrow>
      (\<exists>contents program_id relevant_arguments relevant_env_vars.
         map (read_file w) (hash_extra_files (cfg w)) = map Inr contents \<and>
         (\<exists>s1 s2. get_program_id_cached w m_args s1 = (Inr program_id, s2)) \<and>
         get_relevant_arguments w = Inr relevant_arguments \<and>
         get_relevant_env_vars w = Inr relevant_env_vars \<and>
         hasher = map FileData contents @
           [Bytes program_id, StringList relevant_arguments,
            StringMap (sorted_list_of_fmap relevant_env_vars)] \<and>
         sorted (map fst (sorted_list_of_fmap relevant_env_vars))))
   \<and> (Lookup h \<in> set (trace (snd (handle_command w))) \<longrightarrow>
      (\<exists>m_args' contents program_id relevant_arguments relevant_env_vars preprocessed.
         resolve_args w = Inr m_args' \<and>
         map (read_file w) (hash_extra_files (cfg w)) = map Inr contents \<and>
         (\<exists>s1 s2. get_program_id_cached w m_args' s1 = (Inr program_id, s2)) \<and>
         get_relevant_arguments w = Inr relevant_arguments \<and>
         get_relevant_env_vars w = Inr relevant_env_vars \<and>
         preprocess_source w = Inr preprocessed \<and>
         h = final w
           (map FileData contents @
            [Bytes program_id, StringList relevant_arguments,
             StringMap (sorted_list_of_fmap relevant_env_vars), Bytes preprocessed])))
   \<and> frame (StringMap kvs) = frame (StringList (map (\<lambda>kv. fst kv @ ''='' @ snd kv) kvs))"
proof -
  have c1: "hashing_front w initial_state = (Inr (m_args, caps, expected_files, hasher), s) \<longrightarrow>
      (\<exists>contents program_id relevant_arguments relevant_env_vars.
         map (read_file w) (hash_extra_files (cfg w)) = map Inr contents \<and>
         (\<exists>s1 s2. get_program_id_cached w m_args s1 = (Inr program_id, s2)) \<and>
         get_relevant_arguments w = Inr relevant_arguments \<and>
         get_relevant_env_vars w = Inr relevant_env_vars \<and>
         hasher = map FileData contents @
           [Bytes program_id, StringList relevant_arguments,
            StringMap (sorted_list_of_fmap relevant_env_vars)] \<and>
         sorted (map fst (sorted_list_of_fmap relevant_env_vars)))"
  proof (rule impI)
    assume "hashing_front w initial_state = (Inr (m_args, caps, expected_files, hasher), s)"
    from hashing_front_result [OF this] obtain s2 s3 where
      "base_hash w m_args s2 = (Inr hasher, s3)" by blast
    from base_hash_result [OF this] obtain contents program_id relevant_arguments
      relevant_env_vars
      where "map (read_file w) (hash_extra_files (cfg w)) = map Inr contents"
        "\<exists>s1 s2. get_program_id_cached w m_args s1 = (Inr program_id, s2)"
        "get_relevant_arguments w = Inr relevant_arguments"
        "get_relevant_env_vars w = Inr relevant_env_vars"
        "hasher = map FileData contents @
          [Bytes program_id, StringList relevant_arguments,
           StringMap (sorted_list_of_fmap relevant_env_vars)]"
      by blast
    moreover have "sorted (map fst (sorted_list_of_fmap relevant_env_vars))"
      by (simp add: sorted_list_of_fmap_keys sorted_list_of_fset.rep_eq)
    ultimately show "\<exists>contents program_id relevant_arguments relevant_env_vars.
         map (read_file w) (hash_extra_files (cfg w)) = map Inr contents \<and>
         (\<exists>s1 s2. get_program_id_cached w m_args s1 = (Inr program_id, s2)) \<and>
         get_relevant_arguments w = Inr relevant_arguments \<and>
         get_relevant_env_vars w = Inr relevant_env_vars \<and>
         hasher = map FileData contents @
           [Bytes program_id, StringList relevant_arguments,
            StringMap (sorted_list_of_fmap relevant_env_vars)] \<and>
         sorted (map fst (sorted_list_of_fmap relevant_env_vars))"
      by blast
  qed
  have c2: "Lookup h \<in> set (trace (snd (handle_command w))) \<longrightarrow>
      (\<exists>m_args' contents program_id relevant_arguments relevant_env_vars preprocessed.
         resolve_args w = Inr m_args' \<and>
         map (read_file w) (hash_extra_files (cfg w)) = map Inr contents \<and>
         (\<exists>s1 s2. get_program_id_cached w m_args' s1 = (Inr program_id, s2)) \<and>
         get_relevant_arguments w = Inr relevant_arguments \<and>
         get_relevant_env_vars w = Inr relevant_env_vars \<and>
         preprocess_source w = Inr preprocessed \<and>
         h = final w
           (map FileData contents @
            [Bytes program_id, StringList relevant_arguments,
             StringMap (sorted_list_of_fmap relevant_env_vars), Bytes preprocessed]))"
  proof (rule impI)
    assume "Lookup h \<in> set (trace (snd (handle_command w)))"
    from preprocessor_hash_contents [OF this]
    show "\<exists>m_args' contents program_id relevant_arguments relevant_env_vars preprocessed.
         resolve_args w = Inr m_args' \<and>
         map (read_file w) (hash_extra_files (cfg w)) = map Inr contents \<and>
         (\<exists>s1 s2. get_program_id_cached w m_args' s1 = (Inr program_id, s2)) \<and>
         get_relevant_arguments w = Inr relevant_arguments \<and>
         get_relevant_env_vars w = Inr relevant_env_vars \<and>
         preprocess_source w = Inr preprocessed \<and>
         h = final w
           (map FileData contents @
            [Bytes program_id, StringList relevant_arguments,
             StringMap (sorted_list_of_fmap relevant_env_vars), Bytes preprocessed])"
      by blast
  qed
  have c3: "frame (StringMap kvs) = frame (StringList (map (\<lambda>kv. fst kv @ ''='' @ snd kv) kvs))"
    by simp
  show ?thesis
    by (rule conjI, fact c1, rule conjI, fact c2, fact c3)
qed

lemma example_front:
  "hashing_front example_world initial_state =
     (Inr ([''g++'', ''-c'', ''a.cpp''], example_caps, example_expected, example_base),
      example_front_state)"
  by (simp add: run_defs)

theorem base_hash_order_witness:
  "hashing_front example_world initial_state =
     (Inr ([''g++'', ''-c'', ''a.cpp''], example_caps, example_expected, example_base),
      example_front_state)
   \<and> example_base =
       map FileData [''e''] @
       [Bytes ''g++ 9'', StringList [''g++'', ''-c''], StringMap [(''LANG'', ''C'')]]
   \<and> Lookup example_hash \<in> set (trace (snd (handle_command example_world)))
   \<and> map (read_file example_world) (hash_extra_files (cfg example_world)) = map Inr [''e'']
   \<and> get_relevant_arguments example_world = Inr [''g++'', ''-c'']
   \<and> sorted_list_of_fmap (fmupd ''LANG'' ''C'' fmempty) = [(''LANG'', ''C'')]
   \<and> preprocess_source example_world = Inr ''int x;''
   \<and> example_hash =
       final example_world
         (map FileData [''e''] @
          [Bytes ''g++ 9'', StringList [''g++'', ''-c''], StringMap [(''LANG'', ''C'')],
           Bytes ''int x;''])"
proof -
  have 1: "Lookup example_hash \<in> set (trace (snd (handle_command example_world)))"
    by (simp add: example_run)
  have 2: "map (read_file example_world) (hash_extra_files (cfg example_world)) = map Inr [''e'']"
    "get_relevant_arguments example_world = Inr [''g++'', ''-c'']"
    "sorted_list_of_fmap (fmupd ''LANG'' ''C'' fmempty) = [(''LANG'', ''C'')]"
    "preprocess_source example_world = Inr ''int x;''"
    "example_base =
       map FileData [''e''] @
       [Bytes ''g++ 9'', StringList [''g++'', ''-c''], StringMap [(''LANG'', ''C'')]]"
    "example_hash =
       final example_world
         (map FileData [''e''] @
          [Bytes ''g++ 9'', StringList [''g++'', ''-c''], StringMap [(''LANG'', ''C'')],
           Bytes ''int x;''])"
    by (simp_all add: example_world_fields example_defs sorted_list_of_fmap_single)
  from base_hash_order [where w = example_world and h = example_hash
      and m_args = "[''g++'', ''-c'', ''a.cpp'']" and caps = example_caps
      and expected_files = example_expected and hasher = example_base
      and s = example_front_state] example_front 1
  have "\<exists>contents. map (read_file example_world) (hash_extra_files (cfg example_world)) =
      map Inr contents"
    by blast
  with example_front 1 2 show ?thesis
    by (intro conjI) simp_all
qed

section \<open>Required and optional expected files\<close>








section \<open>The program id cache\<close>




















end
